theory Spec2Isabelle
  imports Main
begin

section \<open>Python values the translator works with\<close>

text \<open>
  The exceptions that the code of \<^verbatim>\<open>l2cs.py\<close> can raise or let through: the lookup
  \<^verbatim>\<open>HANDLERS[clause.__class__]\<close> raises KeyError, \<^verbatim>\<open>handler\<close>, \<^verbatim>\<open>int\<close> and tuple
  unpacking raise ValueError, reading an attribute an object does not have raises
  AttributeError, \<^verbatim>\<open>words[-1]\<close> on an empty list raises IndexError and a failed
  \<^verbatim>\<open>assert\<close> raises AssertionError.
\<close>

datatype pyerror = KeyError | ValueError | AttributeError | IndexError | AssertionError

text \<open>
  The classes of query objects. The six classes the module registers handlers for are
  constructors of their own; \<open>Subclass n b\<close> is a class named \<open>n\<close> whose direct base is
  \<open>b\<close> (whoosh's \<^verbatim>\<open>Ordered\<close> derives from \<^verbatim>\<open>And\<close>), and \<open>Other n\<close> is any other
  query class (\<^verbatim>\<open>Prefix\<close>, \<^verbatim>\<open>Every\<close>, ...).
\<close>

datatype cls =
    Term_cls | Phrase_cls | And_cls | Or_cls | Not_cls | AndNot_cls
  | Subclass string cls
  | Other string

fun class_name :: "cls \<Rightarrow> string" where
  "class_name Term_cls = ''Term''"
| "class_name Phrase_cls = ''Phrase''"
| "class_name And_cls = ''And''"
| "class_name Or_cls = ''Or''"
| "class_name Not_cls = ''Not''"
| "class_name AndNot_cls = ''AndNot''"
| "class_name (Subclass n b) = n"
| "class_name (Other n) = n"

fun issubclass :: "cls \<Rightarrow> cls \<Rightarrow> bool" where
  "issubclass (Subclass n b) d = (Subclass n b = d \<or> issubclass b d)"
| "issubclass c d = (c = d)"

text \<open>
  A query object, with the attributes the handlers read. An attribute the object does
  not have is \<open>None\<close>; \<open>q_children\<close> is what \<^verbatim>\<open>clause.children()\<close> yields.
\<close>

datatype query = Query
  (q_class: cls)
  (q_fieldname: "string option")
  (q_text: "string option")
  (q_words: "string list option")
  (q_integer_field: "bool option")
  (q_children: "query list")

definition isinstance :: "query \<Rightarrow> cls \<Rightarrow> bool" where
  "isinstance q c = issubclass (q_class q) c"

text \<open>\<^verbatim>\<open>str.lower\<close> on ASCII text.\<close>

definition lower_char :: "char \<Rightarrow> char" where
  "lower_char c =
     (let n = (of_char c :: nat) in if 65 \<le> n \<and> n \<le> 90 then char_of (n + 32) else c)"

definition lower :: "string \<Rightarrow> string" where
  "lower s = map lower_char s"

section \<open>Generators\<close>

text \<open>
  A generator of string pieces is run to its end: the pieces it yielded, in order, and
  the exception that ended it, if one did.
\<close>

type_synonym gen = "string list \<times> pyerror option"

definition yield :: "string \<Rightarrow> gen" where
  "yield s = ([s], None)"

definition raise :: "pyerror \<Rightarrow> gen" where
  "raise e = ([], Some e)"

definition skip :: gen where
  "skip = ([], None)"

text \<open>\<open>seq g h\<close> runs \<open>g\<close> and then, unless \<open>g\<close> raised, \<open>h\<close>.\<close>

definition seq :: "gen \<Rightarrow> gen \<Rightarrow> gen" where
  "seq g h = (case snd g of Some e \<Rightarrow> g | None \<Rightarrow> (fst g @ fst h, snd h))"

text \<open>\<^verbatim>\<open>''.join(pieces)\<close>: the exception of the generator, or the concatenation.\<close>

definition join_pieces :: "gen \<Rightarrow> pyerror + string" where
  "join_pieces g = (case snd g of Some e \<Rightarrow> Inl e | None \<Rightarrow> Inr (concat (fst g)))"

section \<open>The handler registry\<close>

datatype handler_fn = Build_field | Build_grouper | Build_compound

type_synonym registry = "cls \<rightharpoonup> handler_fn"

text \<open>
  \<^verbatim>\<open>handler(classes)(fn)\<close>: the loop over \<open>classes\<close>. It returns the exception raised, if
  any, and the registry as the loop left it.
\<close>

fun handler :: "cls list \<Rightarrow> handler_fn \<Rightarrow> registry \<Rightarrow> pyerror option \<times> registry" where
  "handler [] fn H = (None, H)"
| "handler (c # cs) fn H =
     (if H c \<noteq> None then (Some ValueError, H) else handler cs fn (H(c \<mapsto> fn)))"

text \<open>The three decorators of the module, run in order when it is imported.\<close>

definition module_init :: "pyerror option \<times> registry" where
  "module_init =
     (case handler [Term_cls, Phrase_cls] Build_field Map.empty of
        (Some e, H) \<Rightarrow> (Some e, H)
      | (None, H) \<Rightarrow>
          (case handler [And_cls, Or_cls, Not_cls] Build_grouper H of
             (Some e, H') \<Rightarrow> (Some e, H')
           | (None, H') \<Rightarrow> handler [AndNot_cls] Build_compound H'))"

definition HANDLERS :: registry where
  "HANDLERS = snd module_init"

section \<open>The serializer\<close>

fun phrase_words :: "string list \<Rightarrow> gen" where
  "phrase_words [] = raise IndexError"
| "phrase_words [w] = yield w"
| "phrase_words (w # ws) = seq (yield w) (seq (yield '' '') (phrase_words ws))"

definition attr :: "string option \<Rightarrow> gen" where
  "attr a = (case a of None \<Rightarrow> raise AttributeError | Some s \<Rightarrow> yield s)"

definition build_field :: "query \<Rightarrow> gen" where
  "build_field clause =
     (let integer_field = (case q_integer_field clause of None \<Rightarrow> False | Some b \<Rightarrow> b) in
      if \<not> integer_field then
        seq (yield ''(field '')
       (seq (attr (q_fieldname clause))
       (seq (yield ('' '' @ [CHR 0x27]))
       (seq (if isinstance clause Term_cls then attr (q_text clause)
             else if isinstance clause Phrase_cls then
               (case q_words clause of
                  None \<Rightarrow> raise AttributeError
                | Some ws \<Rightarrow> phrase_words ws)
             else skip)
            (yield ([CHR 0x27] @ '')'')))))
      else
        seq (attr (q_fieldname clause))
       (seq (yield '':'')
            (attr (q_text clause))))"

fun walk_clause :: "registry \<Rightarrow> query \<Rightarrow> gen"
and build_grouper :: "registry \<Rightarrow> query \<Rightarrow> gen"
and build_compound :: "registry \<Rightarrow> query \<Rightarrow> gen"
and walk_children :: "registry \<Rightarrow> query list \<Rightarrow> gen"
where
  "walk_clause H (Query c f t w i cs) =
     (case H c of
        None \<Rightarrow> raise KeyError
      | Some Build_field \<Rightarrow> build_field (Query c f t w i cs)
      | Some Build_grouper \<Rightarrow> build_grouper H (Query c f t w i cs)
      | Some Build_compound \<Rightarrow> build_compound H (Query c f t w i cs))"
| "build_grouper H (Query c f t w i cs) =
     seq (yield ''('')
    (seq (yield (lower (class_name c)))
    (seq (walk_children H cs)
         (yield '')'')))"
| "build_compound H (Query c f t w i cs) =
     seq (yield ''(and '')
       (case cs of
          [use, avoid] \<Rightarrow>
            seq (walk_clause H use)
           (seq (yield '' (not '')
           (seq (walk_clause H avoid)
                (yield ''))'')))
        | _ \<Rightarrow> raise ValueError)"
| "walk_children H [] = skip"
| "walk_children H (child_clause # rest) =
     seq (yield '' '') (seq (walk_clause H child_clause) (walk_children H rest))"

text \<open>
  \<^verbatim>\<open>''.join(walk_clause(parsed))\<close>, as \<^verbatim>\<open>convert\<close> and \<^verbatim>\<open>main\<close> compute it, with the
  registry the module built.
\<close>

definition render :: "query \<Rightarrow> pyerror + string" where
  "render q = join_pieces (walk_clause HANDLERS q)"

text \<open>
  \<^verbatim>\<open>convert\<close>. The parser that \<^verbatim>\<open>make_parser\<close> configures is whoosh's and is a
  parameter here: it returns the compiled query or the exception it raised.
\<close>

definition convert :: "(string \<Rightarrow> pyerror + query) \<Rightarrow> string \<Rightarrow> pyerror + string" where
  "convert parse query =
     (case parse query of
        Inl e \<Rightarrow> Inl e
      | Inr parsed \<Rightarrow> join_pieces (walk_clause HANDLERS parsed))"

section \<open>The serializer with the clause and the registry as state\<close>




section \<open>Integer and yes/no fields\<close>

text \<open>
  Python's \<^verbatim>\<open>int\<close> on a byte string, base 10: surrounding whitespace is stripped, one
  sign is allowed, and at least one digit must follow and nothing else. \<^verbatim>\<open>int\<close> on an
  integer returns it.
\<close>

datatype pyval = PyStr string | PyInt int

definition isspace :: "char \<Rightarrow> bool" where
  "isspace c = (c \<in> set [CHR '' '', CHR 0x09, CHR 0x0A, CHR 0x0B, CHR 0x0C, CHR 0x0D])"

definition strip :: "string \<Rightarrow> string" where
  "strip s = rev (dropWhile isspace (rev (dropWhile isspace s)))"

definition digit_value :: "char \<Rightarrow> nat option" where
  "digit_value c =
     (let n = (of_char c :: nat) in if 48 \<le> n \<and> n \<le> 57 then Some (n - 48) else None)"

fun digits_value :: "nat \<Rightarrow> string \<Rightarrow> nat option" where
  "digits_value acc [] = Some acc"
| "digits_value acc (c # cs) =
     (case digit_value c of None \<Rightarrow> None | Some d \<Rightarrow> digits_value (10 * acc + d) cs)"

definition int_of_string :: "string \<Rightarrow> pyerror + int" where
  "int_of_string s =
     (let t = strip s;
          neg = (t \<noteq> [] \<and> hd t = CHR ''-'');
          ds = (if t \<noteq> [] \<and> (hd t = CHR ''-'' \<or> hd t = CHR ''+'') then tl t else t)
      in if ds = [] then Inl ValueError
         else (case digits_value 0 ds of
                 None \<Rightarrow> Inl ValueError
               | Some n \<Rightarrow> Inr (if neg then - int n else int n)))"

fun py_int :: "pyval \<Rightarrow> pyerror + int" where
  "py_int (PyStr s) = int_of_string s"
| "py_int (PyInt i) = Inr i"

text \<open>Python's \<^verbatim>\<open>str\<close> on an integer: the decimal digits, after a minus sign if negative.\<close>

definition digit_char :: "nat \<Rightarrow> char" where
  "digit_char d = char_of (48 + d)"

function str_nat :: "nat \<Rightarrow> string" where
  "str_nat n = (if n < 10 then [digit_char n] else str_nat (n div 10) @ [digit_char (n mod 10)])"
  by pat_completeness auto
termination
  by (relation "measure id") auto

declare str_nat.simps [simp del]

definition py_str :: "int \<Rightarrow> string" where
  "py_str i = (if i < 0 then CHR ''-'' # str_nat (nat (- i)) else str_nat (nat i))"

text \<open>
  A syntax node of the query parser, as the plugins see it: its class, the class
  attribute \<^verbatim>\<open>has_text\<close>, its text and the field name set on it (if any).
\<close>

datatype node_cls = WordNode_cls | IntNode_cls | OtherNode string

record syntax_node =
  n_class :: node_cls
  has_text :: bool
  n_text :: string
  n_fieldname :: "string option"

text \<open>
  \<^verbatim>\<open>IntNode.__init__\<close>: \<^verbatim>\<open>int(value)\<close> may raise; the node is then a word node whose
  text is \<^verbatim>\<open>str\<close> of the integer.
\<close>

definition IntNode :: "pyval \<Rightarrow> pyerror + syntax_node" where
  "IntNode v =
     (case py_int v of
        Inl e \<Rightarrow> Inl e
      | Inr int_value \<Rightarrow>
          Inr \<lparr>n_class = IntNode_cls, has_text = True, n_text = py_str int_value,
               n_fieldname = None\<rparr>)"

text \<open>
  Modelled from the spec: \<^verbatim>\<open>set_fieldname\<close> is whoosh's, not this repository's; the
  spec has the typed leaf carry the field name of the rule.
\<close>

definition set_fieldname :: "syntax_node \<Rightarrow> string \<Rightarrow> syntax_node" where
  "set_fieldname node name = node\<lparr>n_fieldname := Some name\<rparr>"

text \<open>
  \<^verbatim>\<open>IntNodePlugin.modify_node\<close>. The result \<open>None\<close> is Python's \<^verbatim>\<open>None\<close>, which drops
  the node. Only ValueError is caught.
\<close>

definition modify_node :: "string \<Rightarrow> syntax_node \<Rightarrow> pyerror + syntax_node option" where
  "modify_node fieldname node =
     (if has_text node then
        (case IntNode (PyStr (n_text node)) of
           Inr new_node \<Rightarrow> Inr (Some (set_fieldname new_node fieldname))
         | Inl e \<Rightarrow> if e = ValueError then Inr None else Inl e)
      else Inr (Some node))"

text \<open>\<^verbatim>\<open>YesNoPlugin.modify_node\<close>, which has no \<^verbatim>\<open>try\<close>.\<close>

definition yesno_modify_node :: "string \<Rightarrow> syntax_node \<Rightarrow> pyerror + syntax_node option" where
  "yesno_modify_node fieldname node =
     (if has_text node then
        (case (if n_text node \<in> set [''yes'', ''y'', ''1''] then IntNode (PyInt 1)
               else IntNode (PyInt 0)) of
           Inl e \<Rightarrow> Inl e
         | Inr new_node \<Rightarrow> Inr (Some (set_fieldname new_node fieldname)))
      else Inr (Some node))"

text \<open>
  Modelled from the spec: \<^verbatim>\<open>WordNode.query\<close> is whoosh's, not this repository's; in the
  spec a word compiles to a single-word leaf with the node's field name (the parser's
  default field when the node has none) and the node's text.
\<close>

definition WordNode_query :: "string \<Rightarrow> syntax_node \<Rightarrow> query" where
  "WordNode_query default_field node =
     Query Term_cls
       (Some (case n_fieldname node of None \<Rightarrow> default_field | Some f \<Rightarrow> f))
       (Some (n_text node)) None None []"

text \<open>\<^verbatim>\<open>IntNode.query\<close>: the word's query with \<^verbatim>\<open>integer_field\<close> set to \<^verbatim>\<open>True\<close>.\<close>

definition IntNode_query :: "string \<Rightarrow> syntax_node \<Rightarrow> query" where
  "IntNode_query default_field node =
     (case WordNode_query default_field node of
        Query c f t w i cs \<Rightarrow> Query c f t w (Some True) cs)"

text \<open>
  \<^verbatim>\<open>IntNodePlugin.modify_node_fn\<close>: the rule closed over the field name.
\<close>

type_synonym node_rule = "syntax_node \<Rightarrow> pyerror + syntax_node option"

definition modify_node_fn :: "string \<Rightarrow> (string \<Rightarrow> node_rule) \<Rightarrow> node_rule" where
  "modify_node_fn fname base_fn = (\<lambda>node. base_fn fname node)"

text \<open>
  \<^verbatim>\<open>IntNodePlugin.__init__\<close>: the mapping from each field name to its rule, which is
  handed to whoosh's \<^verbatim>\<open>PseudoFieldPlugin\<close>. \<^verbatim>\<open>self.modify_node\<close> is the parameter
  \<open>base_fn\<close>: \<^verbatim>\<open>YesNoPlugin\<close> inherits the constructor and overrides the rule.
\<close>

definition plugin_mapping :: "(string \<Rightarrow> node_rule) \<Rightarrow> string list \<Rightarrow> (string \<rightharpoonup> node_rule)" where
  "plugin_mapping base_fn fieldnames =
     foldl (\<lambda>mapping name. mapping(name \<mapsto> modify_node_fn name base_fn)) Map.empty fieldnames"

definition IntNodePlugin :: "string list \<Rightarrow> (string \<rightharpoonup> node_rule)" where
  "IntNodePlugin fieldnames = plugin_mapping modify_node fieldnames"

definition YesNoPlugin :: "string list \<Rightarrow> (string \<rightharpoonup> node_rule)" where
  "YesNoPlugin fieldnames = plugin_mapping yesno_modify_node fieldnames"

text \<open>
  \<^verbatim>\<open>make_parser\<close>, as far as this repository goes: the integer rules and the yes/no rules
  it adds to the parser, with the default field names when none are given. The parser
  and its syntax plugins are whoosh's.
\<close>

definition make_parser ::
  "string list option \<Rightarrow> string list option \<Rightarrow> (string \<rightharpoonup> node_rule) \<times> (string \<rightharpoonup> node_rule)" where
  "make_parser int_fields yesno_fields =
     ((case int_fields of
         None \<Rightarrow> IntNodePlugin [''count'', ''number'']
       | Some fs \<Rightarrow> IntNodePlugin fs),
      (case yesno_fields of
         None \<Rightarrow> YesNoPlugin [''is_active'', ''is_ready'']
       | Some fs \<Rightarrow> YesNoPlugin fs))"

section \<open>The self-test\<close>

text \<open>
  Python 2's \<^verbatim>\<open>print a, b, ...\<close> writes the items on one line, with a space before each
  item but the first unless the item before ended in a whitespace character other than
  a space.
\<close>

fun print_items :: "string list \<Rightarrow> string" where
  "print_items [] = []"
| "print_items [x] = x"
| "print_items (x # xs) =
     x @ (if x \<noteq> [] \<and> isspace (last x) \<and> last x \<noteq> CHR '' '' then [] else '' '')
       @ print_items xs"

text \<open>The table \<^verbatim>\<open>TESTS\<close>, each tuple as the list of its components.\<close>

definition TESTS :: "string list list" where
  "TESTS =
    [[''foo'', ''(field text '' @ [CHR 0x27] @ ''foo'' @ [CHR 0x27] @ '')''],
     [''foo:bar'', ''(field foo '' @ [CHR 0x27] @ ''bar'' @ [CHR 0x27] @ '')''],
     [[CHR 0x22] @ ''foo bar baz'' @ [CHR 0x22],
      ''(field text '' @ [CHR 0x27] @ ''foo bar baz'' @ [CHR 0x27] @ '')''],
     [''foo AND bar'',
      ''(and (field text '' @ [CHR 0x27] @ ''foo'' @ [CHR 0x27] @ '') (field text ''
        @ [CHR 0x27] @ ''bar'' @ [CHR 0x27] @ ''))''],
     [''foo AND bar:baz'',
      ''(and (field text '' @ [CHR 0x27] @ ''foo'' @ [CHR 0x27] @ '') (field bar ''
        @ [CHR 0x27] @ ''baz'' @ [CHR 0x27] @ ''))''],
     [''foo OR bar'',
      ''(or (field text '' @ [CHR 0x27] @ ''foo'' @ [CHR 0x27] @ '') (field text ''
        @ [CHR 0x27] @ ''bar'' @ [CHR 0x27] @ ''))''],
     [''bar:baz OR foo'',
      ''(or (field bar '' @ [CHR 0x27] @ ''baz'' @ [CHR 0x27] @ '') (field text ''
        @ [CHR 0x27] @ ''foo'' @ [CHR 0x27] @ ''))''],
     [''NOT foo'', ''(not (field text '' @ [CHR 0x27] @ ''foo'' @ [CHR 0x27] @ ''))''],
     [''baz NOT bar'',
      ''(and (field text '' @ [CHR 0x27] @ ''baz'' @ [CHR 0x27] @ '') (not (field text ''
        @ [CHR 0x27] @ ''bar'' @ [CHR 0x27] @ '')))''],
     [''foo:bar NOT foo:baz'',
      ''(and (field foo '' @ [CHR 0x27] @ ''bar'' @ [CHR 0x27] @ '') (not (field foo ''
        @ [CHR 0x27] @ ''baz'' @ [CHR 0x27] @ '')))''],
     [''bar AND foo:-baz'']]"

text \<open>
  \<^verbatim>\<open>run_tests\<close>: the lines printed, and the exception that ended the run, if any.
  Unpacking \<^verbatim>\<open>input_, output\<close> from a tuple that is not a pair raises ValueError; an
  exception of \<^verbatim>\<open>convert\<close> is not caught; the AssertionError is re-raised after the
  \<^verbatim>\<open>nope\<close> line.
\<close>

fun run_tests_loop ::
  "(string \<Rightarrow> pyerror + query) \<Rightarrow> string list list \<Rightarrow> string list \<times> pyerror option" where
  "run_tests_loop parse [] = ([], None)"
| "run_tests_loop parse (entry # rest) =
     (case entry of
        [input_, output] \<Rightarrow>
          seq (yield (print_items [input_, ''becomes'', output, ''? ... '']))
            (case convert parse input_ of
               Inl e \<Rightarrow> raise e
             | Inr result \<Rightarrow>
                 if result = output then
                   seq (yield (print_items [CHR 0x09 # ''yup!'']))
                       (run_tests_loop parse rest)
                 else
                   seq (yield (print_items [CHR 0x09 # ''nope:'', result]))
                       (raise AssertionError))
      | _ \<Rightarrow> raise ValueError)"

definition run_tests :: "(string \<Rightarrow> pyerror + query) \<Rightarrow> string list \<times> pyerror option" where
  "run_tests parse = run_tests_loop parse TESTS"

section \<open>Notions used to state the properties\<close>

text \<open>Python's \<^verbatim>\<open>' '.join(ws)\<close>.\<close>

fun join_spaces :: "string list \<Rightarrow> string" where
  "join_spaces [] = []"
| "join_spaces [w] = w"
| "join_spaces (w # ws) = w @ '' '' @ join_spaces ws"

text \<open>The renderings of a list of nodes in order, up to the first that raises.\<close>

fun render_all :: "registry \<Rightarrow> query list \<Rightarrow> pyerror + string list" where
  "render_all H [] = Inr []"
| "render_all H (q # qs) =
     (case join_pieces (walk_clause H q) of
        Inl e \<Rightarrow> Inl e
      | Inr s \<Rightarrow> (case render_all H qs of Inl e \<Rightarrow> Inl e | Inr ss \<Rightarrow> Inr (s # ss)))"

text \<open>The classes of all nodes of a tree.\<close>

fun classes_of :: "query \<Rightarrow> cls set" where
  "classes_of (Query c f t w i cs) = insert c (\<Union> (classes_of ` set cs))"

text \<open>
  A concrete parser for the first three inputs of \<^verbatim>\<open>TESTS\<close>: a bare word is a Term in
  the default field \<^verbatim>\<open>text\<close>, \<^verbatim>\<open>field:word\<close> is a Term in that field and, double quotes
  not being syntax for a parser whose plugins have single-quote phrases only, the third
  input is the And of its three words, quote characters included.
\<close>

definition sample_parse :: "string \<Rightarrow> pyerror + query" where
  "sample_parse s =
     (if s = ''foo'' then Inr (Query Term_cls (Some ''text'') (Some ''foo'') None None [])
      else if s = ''foo:bar'' then Inr (Query Term_cls (Some ''foo'') (Some ''bar'') None None [])
      else if s = [CHR 0x22] @ ''foo bar baz'' @ [CHR 0x22] then
        Inr (Query And_cls None None None None
          [Query Term_cls (Some ''text'') (Some ([CHR 0x22] @ ''foo'')) None None [],
           Query Term_cls (Some ''text'') (Some ''bar'') None None [],
           Query Term_cls (Some ''text'') (Some (''baz'' @ [CHR 0x22])) None None []])
      else Inl ValueError)"

text \<open>
  The nodes \<^verbatim>\<open>walk_clause\<close> is called on while a tree is rendered, if nothing raises
  before: the node itself, the children of a node whose handler is \<^verbatim>\<open>build_grouper\<close>
  and the two children of a node whose handler is \<^verbatim>\<open>build_compound\<close>, recursively.
\<close>

fun visited :: "registry \<Rightarrow> query \<Rightarrow> query list" where
  "visited H (Query c f t w i cs) =
     Query c f t w i cs #
     (case H c of
        Some Build_grouper \<Rightarrow> concat (map (visited H) cs)
      | Some Build_compound \<Rightarrow>
          (case cs of [use, avoid] \<Rightarrow> visited H use @ visited H avoid | _ \<Rightarrow> [])
      | _ \<Rightarrow> [])"

section \<open>The registry the module builds\<close>

lemma module_init_ok: "fst module_init = None"
  by (simp add: module_init_def)

lemma HANDLERS_eq:
  "HANDLERS = [Term_cls \<mapsto> Build_field, Phrase_cls \<mapsto> Build_field,
     And_cls \<mapsto> Build_grouper, Or_cls \<mapsto> Build_grouper, Not_cls \<mapsto> Build_grouper,
     AndNot_cls \<mapsto> Build_compound]"
  by (simp add: HANDLERS_def module_init_def)

lemma HANDLERS_simps:
  "HANDLERS Term_cls = Some Build_field"
  "HANDLERS Phrase_cls = Some Build_field"
  "HANDLERS And_cls = Some Build_grouper"
  "HANDLERS Or_cls = Some Build_grouper"
  "HANDLERS Not_cls = Some Build_grouper"
  "HANDLERS AndNot_cls = Some Build_compound"
  "HANDLERS (Subclass n b) = None"
  "HANDLERS (Other n) = None"
  by (simp_all add: HANDLERS_eq)

lemma strict_subclass_unregistered: "issubclass c k \<Longrightarrow> c \<noteq> k \<Longrightarrow> HANDLERS c = None"
  by (cases c) (auto simp: HANDLERS_simps)

lemma lower_names:
  "lower ''And'' = ''and''"
  "lower ''Or'' = ''or''"
  "lower ''Not'' = ''not''"
  by code_simp+

section \<open>Generators and their concatenation\<close>

lemma join_yield: "join_pieces (yield s) = Inr s"
  by (simp add: join_pieces_def yield_def)

lemma join_raise: "join_pieces (raise e) = Inl e"
  by (simp add: join_pieces_def raise_def)

lemma join_skip: "join_pieces skip = Inr []"
  by (simp add: join_pieces_def skip_def)

lemma join_seq:
  "join_pieces (seq g h) =
     (case join_pieces g of
        Inl e \<Rightarrow> Inl e
      | Inr s \<Rightarrow> (case join_pieces h of Inl e \<Rightarrow> Inl e | Inr t \<Rightarrow> Inr (s @ t)))"
  by (cases g; cases h) (auto simp: join_pieces_def seq_def split: option.splits)

lemma snd_seq: "snd (seq g h) = None \<longleftrightarrow> snd g = None \<and> snd h = None"
  by (auto simp: seq_def split: option.splits)

lemma isl_join: "isl (join_pieces g) \<longleftrightarrow> snd g \<noteq> None"
  by (auto simp: join_pieces_def split: option.splits)

lemma join_attr:
  "join_pieces (attr (Some s)) = Inr s"
  "join_pieces (attr None) = Inl AttributeError"
  by (simp_all add: attr_def join_yield join_raise)

lemma join_phrase_words:
  "ws \<noteq> [] \<Longrightarrow> join_pieces (phrase_words ws) = Inr (join_spaces ws)"
  by (induction ws rule: phrase_words.induct) (auto simp: join_seq join_yield)

lemma join_walk_children:
  "join_pieces (walk_children H cs) =
     (case render_all H cs of
        Inl e \<Rightarrow> Inl e
      | Inr rs \<Rightarrow> Inr (concat (map ((#) CHR '' '') rs)))"
  by (induction cs) (auto simp: join_seq join_yield join_skip split: sum.splits)

lemma walk_unregistered: "H (q_class q) = None \<Longrightarrow> walk_clause H q = raise KeyError"
  by (cases q) simp

section \<open>The serializer's rules\<close>


text \<open>
  C3. A node of class And, Or or Not renders as an open parenthesis, the class name in
  lower case, then the rendering of each child after one space, the children taken in
  their order in the node, then a close parenthesis; a child that fails to render makes
  the group fail with that child's exception.
\<close>

theorem grouper_renders_children_in_order:
  "c \<in> {And_cls, Or_cls, Not_cls} \<Longrightarrow>
   render (Query c f t w i cs) =
     (case render_all HANDLERS cs of
        Inl e \<Rightarrow> Inl e
      | Inr rs \<Rightarrow>
          Inr (''('' @ lower (class_name c) @ concat (map ((#) CHR '' '') rs) @ '')''))"
  by (auto simp: render_def HANDLERS_simps join_seq join_yield join_walk_children
      split: sum.splits)

theorem grouper_renders_children_in_order_witness:
  "Or_cls \<in> {And_cls, Or_cls, Not_cls} \<and>
   render (Query Or_cls None None None None
     [Query Term_cls (Some ''bar'') (Some ''baz'') None None [],
      Query Term_cls (Some ''text'') (Some ''foo'') None None []]) =
   Inr (''(or (field bar '' @ [CHR 0x27] @ ''baz'' @ [CHR 0x27] @ '') (field text ''
        @ [CHR 0x27] @ ''foo'' @ [CHR 0x27] @ ''))'')"
  using grouper_renders_children_in_order [of Or_cls None None None None
     "[Query Term_cls (Some ''bar'') (Some ''baz'') None None [],
       Query Term_cls (Some ''text'') (Some ''foo'') None None []]"]
  by (simp add: HANDLERS_simps lower_names build_field_def isinstance_def join_seq
      join_yield join_attr)

text \<open>
  C2 as the code has it. A leaf of class Term or Phrase with field name \<open>f\<close> renders,
  when \<^verbatim>\<open>integer_field\<close> is absent or false, as \<^verbatim>\<open>(field f 'value')\<close>, the value being the
  text of a Term, or the words of a Phrase that has at least one word joined by single
  spaces, with no character escaped; when \<^verbatim>\<open>integer_field\<close> is true and the leaf has a
  \<^verbatim>\<open>text\<close> attribute, as \<^verbatim>\<open>f:text\<close>.
\<close>

theorem leaf_rendering:
  assumes "q_class q \<in> {Term_cls, Phrase_cls}" and "q_fieldname q = Some f"
  shows
    "(q_integer_field q \<noteq> Some True \<and> q_class q = Term_cls \<and> q_text q = Some v \<longrightarrow>
        render q = Inr (''(field '' @ f @ '' '' @ [CHR 0x27] @ v @ [CHR 0x27] @ '')'')) \<and>
     (q_integer_field q \<noteq> Some True \<and> q_class q = Phrase_cls \<and> q_words q = Some ws \<and>
      ws \<noteq> [] \<longrightarrow>
        render q =
          Inr (''(field '' @ f @ '' '' @ [CHR 0x27] @ join_spaces ws @ [CHR 0x27] @ '')'')) \<and>
     (q_integer_field q = Some True \<and> q_text q = Some v \<longrightarrow>
        render q = Inr (f @ '':'' @ v))"
  using assms
  by (cases q)
     (auto simp: render_def HANDLERS_simps build_field_def isinstance_def join_seq
        join_yield join_attr join_phrase_words split: option.splits)

theorem leaf_rendering_witness:
  "render (Query Term_cls (Some ''foo'') (Some (''o'' @ [CHR 0x27] @ ''b)'')) None None []) =
     Inr (''(field foo '' @ [CHR 0x27] @ ''o'' @ [CHR 0x27] @ ''b)'' @ [CHR 0x27] @ '')'') \<and>
   render (Query Phrase_cls (Some ''text'') None (Some [''foo'', ''bar'', ''baz''])
     (Some False) []) =
     Inr (''(field text '' @ [CHR 0x27] @ ''foo bar baz'' @ [CHR 0x27] @ '')'') \<and>
   render (Query Term_cls (Some ''count'') (Some ''12'') None (Some True) []) =
     Inr ''count:12''"
  using
    leaf_rendering [of "Query Term_cls (Some ''foo'') (Some (''o'' @ [CHR 0x27] @ ''b)''))
       None None []" "''foo''" "''o'' @ [CHR 0x27] @ ''b)''" "[]"]
    leaf_rendering [of "Query Phrase_cls (Some ''text'') None
       (Some [''foo'', ''bar'', ''baz'']) (Some False) []" "''text''" "[]"
       "[''foo'', ''bar'', ''baz'']"]
    leaf_rendering [of "Query Term_cls (Some ''count'') (Some ''12'') None (Some True) []"
       "''count''" "''12''" "[]"]
  by simp

text \<open>
  C2 as the spec has it fails at this Phrase, which has words and no \<^verbatim>\<open>text\<close>
  attribute. With \<^verbatim>\<open>integer_field\<close> true, \<^verbatim>\<open>build_field\<close> yields the field name and the
  colon and then raises on \<^verbatim>\<open>clause.text\<close>: nothing of the form \<^verbatim>\<open>count:value\<close> is
  emitted.
\<close>

theorem typed_phrase_raises:
  "render (Query Phrase_cls (Some ''count'') None (Some [''1'', ''2'']) (Some True) []) =
     Inl AttributeError"
  by (simp add: render_def HANDLERS_simps build_field_def join_seq join_yield join_attr)

lemma walk_ok_visited:
  "snd (walk_clause H q) = None \<Longrightarrow> u \<in> set (visited H q) \<Longrightarrow> H (q_class u) \<noteq> None"
  "snd (build_grouper H q) = None \<Longrightarrow> H (q_class q) = Some Build_grouper \<Longrightarrow>
     u \<in> set (visited H q) \<Longrightarrow> H (q_class u) \<noteq> None"
  "snd (build_compound H q) = None \<Longrightarrow> H (q_class q) = Some Build_compound \<Longrightarrow>
     u \<in> set (visited H q) \<Longrightarrow> H (q_class u) \<noteq> None"
  "snd (walk_children H qs) = None \<Longrightarrow> v \<in> set qs \<Longrightarrow> u \<in> set (visited H v) \<Longrightarrow>
     H (q_class u) \<noteq> None"
proof (induction H q and H q and H q and H qs arbitrary: u and u and u and u v
    rule: walk_clause_build_grouper_build_compound_walk_children.induct)
  case (1 H c f t w i cs)
  then show ?case
    by (auto simp: raise_def split: option.splits handler_fn.splits)
next
  case (2 H c f t w i cs)
  then show ?case by (auto simp: snd_seq)
next
  case (3 H c f t w i cs)
  then show ?case
    by (auto simp: snd_seq raise_def split: list.splits)
next
  case (4 H)
  then show ?case by simp
next
  case (5 H child_clause rest)
  then show ?case by (auto simp: snd_seq)
qed

text \<open>
  C6. When rendering a tree reaches a node whose class has no handler in the registry,
  \<^verbatim>\<open>walk_clause\<close> raises KeyError at that node before anything is yielded for it, and
  the rendering of the whole tree ends in an exception: \<^verbatim>\<open>join\<close> returns no string.
\<close>

theorem unsupported_clause_is_fatal:
  assumes "u \<in> set (visited H q)" and "H (q_class u) = None"
  shows "walk_clause H u = raise KeyError \<and> isl (join_pieces (walk_clause H q))"
  using assms walk_ok_visited(1) [of H q u] walk_unregistered [of H u]
  by (auto simp: isl_join)

theorem unsupported_clause_is_fatal_witness:
  "Query (Other ''Prefix'') (Some ''text'') (Some ''ba'') None None [] \<in>
     set (visited HANDLERS
       (Query And_cls None None None None
          [Query Term_cls (Some ''text'') (Some ''foo'') None None [],
           Query (Other ''Prefix'') (Some ''text'') (Some ''ba'') None None []])) \<and>
   HANDLERS (q_class (Query (Other ''Prefix'') (Some ''text'') (Some ''ba'') None None []))
     = None \<and>
   walk_clause HANDLERS (Query (Other ''Prefix'') (Some ''text'') (Some ''ba'') None None [])
     = raise KeyError \<and>
   isl (join_pieces (walk_clause HANDLERS
       (Query And_cls None None None None
          [Query Term_cls (Some ''text'') (Some ''foo'') None None [],
           Query (Other ''Prefix'') (Some ''text'') (Some ''ba'') None None []])))"
  using unsupported_clause_is_fatal
    [of "Query (Other ''Prefix'') (Some ''text'') (Some ''ba'') None None []" HANDLERS
        "Query And_cls None None None None
          [Query Term_cls (Some ''text'') (Some ''foo'') None None [],
           Query (Other ''Prefix'') (Some ''text'') (Some ''ba'') None None []]"]
  by (simp add: HANDLERS_simps)

text \<open>
  C8. \<^verbatim>\<open>handler\<close> called with a class that already has a handler raises ValueError,
  whatever else is in the list of classes, and leaves that class's handler as it was.
\<close>

theorem handler_duplicate_raises:
  "c \<in> set classes \<Longrightarrow> H c \<noteq> None \<Longrightarrow>
     fst (handler classes fn H) = Some ValueError \<and> snd (handler classes fn H) c = H c"
proof (induction classes arbitrary: H)
  case Nil
  then show ?case by simp
next
  case (Cons d ds)
  show ?case
  proof (cases "H d \<noteq> None")
    case True
    then show ?thesis by simp
  next
    case False
    with Cons.prems have "c \<noteq> d" by auto
    with Cons.prems have "c \<in> set ds" "(H(d \<mapsto> fn)) c \<noteq> None" by auto
    then have "fst (handler ds fn (H(d \<mapsto> fn))) = Some ValueError \<and>
        snd (handler ds fn (H(d \<mapsto> fn))) c = (H(d \<mapsto> fn)) c"
      by (rule Cons.IH)
    with False \<open>c \<noteq> d\<close> show ?thesis by simp
  qed
qed

theorem handler_duplicate_raises_witness:
  "Term_cls \<in> set [Other ''Prefix'', Term_cls] \<and> HANDLERS Term_cls \<noteq> None \<and>
   fst (handler [Other ''Prefix'', Term_cls] Build_grouper HANDLERS) = Some ValueError \<and>
   snd (handler [Other ''Prefix'', Term_cls] Build_grouper HANDLERS) Term_cls
     = Some Build_field"
  using handler_duplicate_raises
    [of Term_cls "[Other ''Prefix'', Term_cls]" HANDLERS Build_grouper]
  by (simp add: HANDLERS_simps)

text \<open>
  C10. The registry is looked up with the node's own class. A node whose class is a
  strict subclass of a class that has a handler, and has no handler itself, is not
  rendered by the handler of the base class: \<^verbatim>\<open>walk_clause\<close> raises KeyError.
\<close>

theorem dispatch_on_exact_class:
  "issubclass (q_class q) k \<Longrightarrow> q_class q \<noteq> k \<Longrightarrow> H k \<noteq> None \<Longrightarrow> H (q_class q) = None \<Longrightarrow>
   walk_clause H q = raise KeyError \<and> join_pieces (walk_clause H q) = Inl KeyError"
  by (simp add: walk_unregistered join_raise)

theorem dispatch_on_exact_class_witness:
  "issubclass (q_class (Query (Subclass ''Ordered'' And_cls) None None None None
       [Query Term_cls (Some ''text'') (Some ''foo'') None None []])) And_cls \<and>
   q_class (Query (Subclass ''Ordered'' And_cls) None None None None
       [Query Term_cls (Some ''text'') (Some ''foo'') None None []]) \<noteq> And_cls \<and>
   HANDLERS And_cls \<noteq> None \<and>
   HANDLERS (q_class (Query (Subclass ''Ordered'' And_cls) None None None None
       [Query Term_cls (Some ''text'') (Some ''foo'') None None []])) = None \<and>
   join_pieces (walk_clause HANDLERS (Query (Subclass ''Ordered'' And_cls) None None None None
       [Query Term_cls (Some ''text'') (Some ''foo'') None None []])) = Inl KeyError"
  using dispatch_on_exact_class
    [of "Query (Subclass ''Ordered'' And_cls) None None None None
       [Query Term_cls (Some ''text'') (Some ''foo'') None None []]" And_cls HANDLERS]
  by (simp add: HANDLERS_simps)

section \<open>Integers and their decimal strings\<close>

lemma py_int_error: "py_int v = Inl e \<Longrightarrow> e = ValueError"
  by (cases v) (auto simp: int_of_string_def Let_def split: if_splits option.splits)

lemma digit_value_digit_char: "d < 10 \<Longrightarrow> digit_value (digit_char d) = Some d"
  by (simp add: digit_value_def digit_char_def Let_def)

lemma digits_value_append:
  "digits_value acc (xs @ ys) =
     (case digits_value acc xs of None \<Rightarrow> None | Some a \<Rightarrow> digits_value a ys)"
  by (induction xs arbitrary: acc) (auto split: option.splits)

lemma digits_value_str_nat: "digits_value 0 (str_nat n) = Some n"
proof (induction n rule: str_nat.induct)
  case (1 n)
  show ?case
  proof (cases "n < 10")
    case True
    then show ?thesis by (simp add: str_nat.simps[of n] digit_value_digit_char)
  next
    case False
    with 1 have "digits_value 0 (str_nat (n div 10)) = Some (n div 10)" by simp
    with False show ?thesis
      by (simp add: str_nat.simps[of n] digits_value_append digit_value_digit_char)
  qed
qed

lemma of_char_digit_char: "d < 10 \<Longrightarrow> of_char (digit_char d) = (48 + d :: nat)"
  by (simp add: digit_char_def)

lemma isspace_of_char: "isspace c \<Longrightarrow> (of_char c :: nat) \<in> {32, 9, 10, 11, 12, 13}"
  by (auto simp: isspace_def)

lemma isspace_digit_char: "d < 10 \<Longrightarrow> \<not> isspace (digit_char d)"
  using isspace_of_char[of "digit_char d"] of_char_digit_char[of d] by auto

lemma digit_char_not_sign: "d < 10 \<Longrightarrow> digit_char d \<noteq> CHR ''-'' \<and> digit_char d \<noteq> CHR ''+''"
  using of_char_digit_char[of d] by auto

lemma str_nat_chars: "c \<in> set (str_nat n) \<Longrightarrow> \<exists>d<10. c = digit_char d"
proof (induction n rule: str_nat.induct)
  case (1 n)
  show ?case
  proof (cases "n < 10")
    case True
    with 1(2) show ?thesis by (auto simp: str_nat.simps[of n])
  next
    case False
    with 1 show ?thesis
      by (auto simp: str_nat.simps[of n] intro: exI[of _ "n mod 10"])
  qed
qed

lemma str_nat_nonempty: "str_nat n \<noteq> []"
  by (simp add: str_nat.simps[of n])

lemma strip_no_space: "\<forall>c \<in> set s. \<not> isspace c \<Longrightarrow> strip s = s"
proof -
  assume a: "\<forall>c \<in> set s. \<not> isspace c"
  have d: "dropWhile isspace xs = xs" if "\<forall>c \<in> set xs. \<not> isspace c" for xs
    using that by (cases xs) auto
  from a have "dropWhile isspace s = s" by (rule d)
  moreover from a have "dropWhile isspace (rev s) = rev s" by (intro d) simp
  ultimately show ?thesis by (simp add: strip_def)
qed

lemma hd_str_nat: "\<exists>d<10. hd (str_nat n) = digit_char d"
  using str_nat_chars[of "hd (str_nat n)" n] str_nat_nonempty[of n] by simp

lemma int_of_string_py_str: "int_of_string (py_str i) = Inr i"
proof (cases "i < 0")
  case False
  let ?s = "str_nat (nat i)"
  have "\<forall>c \<in> set ?s. \<not> isspace c"
    using str_nat_chars isspace_digit_char by blast
  then have st: "strip ?s = ?s" by (rule strip_no_space)
  obtain d where "d < 10" "hd ?s = digit_char d" using hd_str_nat by blast
  then have "hd ?s \<noteq> CHR ''-''" "hd ?s \<noteq> CHR ''+''"
    using digit_char_not_sign by auto
  with False st show ?thesis
    by (simp add: int_of_string_def py_str_def Let_def str_nat_nonempty digits_value_str_nat)
next
  case True
  let ?s = "CHR ''-'' # str_nat (nat (- i))"
  have "\<not> isspace CHR ''-''" by (simp add: isspace_def)
  then have "\<forall>c \<in> set ?s. \<not> isspace c"
    using str_nat_chars isspace_digit_char by auto
  then have st: "strip ?s = ?s" by (rule strip_no_space)
  with True show ?thesis
    by (simp add: int_of_string_def py_str_def Let_def str_nat_nonempty digits_value_str_nat)
qed

lemma py_str_0_1: "py_str 0 = ''0''" "py_str 1 = ''1''"
  by code_simp+

section \<open>The coercion rules\<close>

lemma render_IntNode_query:
  "n_fieldname node = Some f \<Longrightarrow>
   render (IntNode_query d node) = Inr (f @ '':'' @ n_text node)"
  by (simp add: IntNode_query_def WordNode_query_def render_def HANDLERS_simps
      build_field_def join_seq join_yield join_attr)

lemma int_of_string_examples:
  "int_of_string ''042'' = Inr 42" "int_of_string ''4x'' = Inl ValueError" "py_str 42 = ''42''"
  by code_simp+

lemma foldl_plugin_mapping:
  "foldl (\<lambda>mapping name. mapping(name \<mapsto> modify_node_fn name base_fn)) m fieldnames fieldname =
     (if fieldname \<in> set fieldnames then Some (modify_node_fn fieldname base_fn)
      else m fieldname)"
  by (induction fieldnames arbitrary: m) auto

lemma plugin_mapping_registered:
  "fieldname \<in> set fieldnames \<Longrightarrow>
   plugin_mapping base_fn fieldnames fieldname = Some (modify_node_fn fieldname base_fn)"
  by (simp add: plugin_mapping_def foldl_plugin_mapping)

lemma make_parser_defaults:
  "fst (make_parser None None) = IntNodePlugin [''count'', ''number'']"
  "snd (make_parser None None) = YesNoPlugin [''is_active'', ''is_ready'']"
  by (simp_all add: make_parser_def)

text \<open>
  C4. For a field registered with \<^verbatim>\<open>IntNodePlugin\<close>, the rule the plugin holds for it is
  \<^verbatim>\<open>modify_node\<close> closed over the field name. On a node with text: when \<^verbatim>\<open>int\<close> accepts
  the text as the integer \<open>k\<close>, the result is an IntNode with that field name whose text
  is \<^verbatim>\<open>str(k)\<close>, the decimal string that reads back as \<open>k\<close>; its query has
  \<^verbatim>\<open>integer_field\<close> true and renders as \<^verbatim>\<open>fieldname:str(k)\<close>. When \<^verbatim>\<open>int\<close> rejects the text
  the result is \<^verbatim>\<open>None\<close>, the drop outcome. In neither case does the rule raise.
\<close>

theorem int_rule:
  assumes "fieldname \<in> set fieldnames" and "has_text node"
  shows "IntNodePlugin fieldnames fieldname = Some (modify_node_fn fieldname modify_node) \<and>
         (case int_of_string (n_text node) of
            Inr k \<Rightarrow>
              modify_node_fn fieldname modify_node node =
                Inr (Some \<lparr>n_class = IntNode_cls, has_text = True, n_text = py_str k,
                           n_fieldname = Some fieldname\<rparr>) \<and>
              int_of_string (py_str k) = Inr k \<and>
              q_integer_field (IntNode_query d
                \<lparr>n_class = IntNode_cls, has_text = True, n_text = py_str k,
                 n_fieldname = Some fieldname\<rparr>) = Some True \<and>
              render (IntNode_query d
                \<lparr>n_class = IntNode_cls, has_text = True, n_text = py_str k,
                 n_fieldname = Some fieldname\<rparr>) = Inr (fieldname @ '':'' @ py_str k)
          | Inl e \<Rightarrow> modify_node_fn fieldname modify_node node = Inr None)"
proof (cases "int_of_string (n_text node)")
  case (Inl e)
  then have "e = ValueError" using py_int_error [of "PyStr (n_text node)" e] by simp
  with Inl assms show ?thesis
    by (simp add: IntNodePlugin_def plugin_mapping_registered modify_node_fn_def
        modify_node_def IntNode_def)
next
  case (Inr k)
  have "q_integer_field (IntNode_query d
          \<lparr>n_class = IntNode_cls, has_text = True, n_text = py_str k,
           n_fieldname = Some fieldname\<rparr>) = Some True"
    by (simp add: IntNode_query_def WordNode_query_def)
  with Inr assms show ?thesis
    by (simp add: IntNodePlugin_def plugin_mapping_registered modify_node_fn_def
        modify_node_def IntNode_def set_fieldname_def int_of_string_py_str
        render_IntNode_query)
qed

theorem int_rule_witness:
  "''count'' \<in> set [''count'', ''number''] \<and>
   has_text \<lparr>n_class = WordNode_cls, has_text = True, n_text = ''042'', n_fieldname = None\<rparr> \<and>
   fst (make_parser None None) ''count'' = Some (modify_node_fn ''count'' modify_node) \<and>
   modify_node_fn ''count'' modify_node
     \<lparr>n_class = WordNode_cls, has_text = True, n_text = ''042'', n_fieldname = None\<rparr> =
     Inr (Some \<lparr>n_class = IntNode_cls, has_text = True, n_text = ''42'',
                n_fieldname = Some ''count''\<rparr>) \<and>
   render (IntNode_query ''text''
     \<lparr>n_class = IntNode_cls, has_text = True, n_text = ''42'',
      n_fieldname = Some ''count''\<rparr>) = Inr ''count:42'' \<and>
   modify_node_fn ''count'' modify_node
     \<lparr>n_class = WordNode_cls, has_text = True, n_text = ''4x'', n_fieldname = None\<rparr> =
     Inr None"
  using
    int_rule [of "''count''" "[''count'', ''number'']"
      "\<lparr>n_class = WordNode_cls, has_text = True, n_text = ''042'', n_fieldname = None\<rparr>"
      "''text''"]
    int_rule [of "''count''" "[''count'', ''number'']"
      "\<lparr>n_class = WordNode_cls, has_text = True, n_text = ''4x'', n_fieldname = None\<rparr>"
      "''text''"]
  by (simp add: int_of_string_examples make_parser_defaults)

text \<open>
  C5. For a field registered with \<^verbatim>\<open>YesNoPlugin\<close>, the rule the plugin holds for it is
  the yes/no \<^verbatim>\<open>modify_node\<close> closed over the field name. On a node with text it never
  raises and never drops the node: the result is an IntNode with the field name, whose
  text is \<^verbatim>\<open>1\<close> when the node's text is exactly \<^verbatim>\<open>yes\<close>, \<^verbatim>\<open>y\<close> or \<^verbatim>\<open>1\<close> and \<^verbatim>\<open>0\<close>
  otherwise, and whose query renders as \<^verbatim>\<open>fieldname:1\<close> or \<^verbatim>\<open>fieldname:0\<close>.
\<close>

theorem yesno_rule:
  assumes "fieldname \<in> set fieldnames" and "has_text node"
  shows "YesNoPlugin fieldnames fieldname = Some (modify_node_fn fieldname yesno_modify_node) \<and>
         modify_node_fn fieldname yesno_modify_node node =
           Inr (Some \<lparr>n_class = IntNode_cls, has_text = True,
                      n_text = (if n_text node \<in> {''yes'', ''y'', ''1''} then ''1'' else ''0''),
                      n_fieldname = Some fieldname\<rparr>) \<and>
         render (IntNode_query d
           \<lparr>n_class = IntNode_cls, has_text = True,
            n_text = (if n_text node \<in> {''yes'', ''y'', ''1''} then ''1'' else ''0''),
            n_fieldname = Some fieldname\<rparr>) =
           Inr (fieldname @ (if n_text node \<in> {''yes'', ''y'', ''1''} then '':1'' else '':0''))"
  using assms
  by (simp add: YesNoPlugin_def plugin_mapping_registered modify_node_fn_def
      yesno_modify_node_def IntNode_def set_fieldname_def py_str_0_1 render_IntNode_query)

theorem yesno_rule_witness:
  "''is_active'' \<in> set [''is_active'', ''is_ready''] \<and>
   has_text \<lparr>n_class = WordNode_cls, has_text = True, n_text = ''y'', n_fieldname = None\<rparr> \<and>
   snd (make_parser None None) ''is_active'' =
     Some (modify_node_fn ''is_active'' yesno_modify_node) \<and>
   modify_node_fn ''is_active'' yesno_modify_node
     \<lparr>n_class = WordNode_cls, has_text = True, n_text = ''y'', n_fieldname = None\<rparr> =
     Inr (Some \<lparr>n_class = IntNode_cls, has_text = True, n_text = ''1'',
                n_fieldname = Some ''is_active''\<rparr>) \<and>
   render (IntNode_query ''text''
     \<lparr>n_class = IntNode_cls, has_text = True, n_text = ''1'',
      n_fieldname = Some ''is_active''\<rparr>) = Inr ''is_active:1'' \<and>
   modify_node_fn ''is_active'' yesno_modify_node
     \<lparr>n_class = WordNode_cls, has_text = True, n_text = ''Yes'', n_fieldname = None\<rparr> =
     Inr (Some \<lparr>n_class = IntNode_cls, has_text = True, n_text = ''0'',
                n_fieldname = Some ''is_active''\<rparr>) \<and>
   render (IntNode_query ''text''
     \<lparr>n_class = IntNode_cls, has_text = True, n_text = ''0'',
      n_fieldname = Some ''is_active''\<rparr>) = Inr ''is_active:0''"
  using
    yesno_rule [of "''is_active''" "[''is_active'', ''is_ready'']"
      "\<lparr>n_class = WordNode_cls, has_text = True, n_text = ''y'', n_fieldname = None\<rparr>"
      "''text''"]
    yesno_rule [of "''is_active''" "[''is_active'', ''is_ready'']"
      "\<lparr>n_class = WordNode_cls, has_text = True, n_text = ''Yes'', n_fieldname = None\<rparr>"
      "''text''"]
  by (simp add: make_parser_defaults)

section \<open>The self-test and the registry as an input\<close>

lemma snd_seq_eq: "snd (seq g h) = (case snd g of Some e \<Rightarrow> Some e | None \<Rightarrow> snd h)"
  by (simp add: seq_def split: option.splits)

lemma snd_yield: "snd (yield s) = None"
  by (simp add: yield_def)

lemma snd_raise: "snd (raise e) = Some e"
  by (simp add: raise_def)

lemma run_tests_loop_bad_entry:
  "\<exists>entry \<in> set tbl. length entry \<noteq> 2 \<Longrightarrow> snd (run_tests_loop parse tbl) \<noteq> None"
proof (induction tbl)
  case Nil
  then show ?case by simp
next
  case (Cons entry rest)
  show ?case
  proof (cases "length entry = 2")
    case False
    then show ?thesis
      by (auto simp: snd_raise split: list.splits)
  next
    case True
    then obtain a b where e: "entry = [a, b]"
      by (cases entry; cases "tl entry") auto
    with Cons have "snd (run_tests_loop parse rest) \<noteq> None" by auto
    with e show ?thesis
      by (auto simp: snd_seq_eq snd_raise snd_yield split: sum.splits)
  qed
qed

lemma run_tests_match:
  "convert parse inp = Inr output \<Longrightarrow>
   run_tests_loop parse ([inp, output] # rest) =
     seq (yield (print_items [inp, ''becomes'', output, ''? ... '']))
    (seq (yield (CHR 0x09 # ''yup!'')) (run_tests_loop parse rest))"
  by simp

lemma run_tests_mismatch:
  "convert parse inp = Inr result \<Longrightarrow> result \<noteq> output \<Longrightarrow>
   run_tests_loop parse ([inp, output] # rest) =
     ([print_items [inp, ''becomes'', output, ''? ... ''],
       print_items [CHR 0x09 # ''nope:'', result]], Some AssertionError)"
  by (simp add: seq_def yield_def raise_def)

lemma run_tests_ends_in_exception:
  "run_tests_loop parse [[''bar AND foo:-baz'']] = raise ValueError \<and>
   snd (run_tests parse) \<noteq> None"
proof -
  have "\<exists>entry \<in> set TESTS. length entry \<noteq> 2"
    by (simp add: TESTS_def)
  then show ?thesis
    using run_tests_loop_bad_entry [of TESTS parse] by (simp add: run_tests_def)
qed


lemma seq_pieces: "seq (xs, None) g = (xs @ fst g, snd g)"
  by (simp add: seq_def)

lemma run_tests_loop_matching_prefix:
  "\<forall>e \<in> set pre. length e = 2 \<and> convert parse (e ! 0) = Inr (e ! 1) \<Longrightarrow>
   run_tests_loop parse (pre @ rest) =
     seq (concat (map (\<lambda>e. [print_items [e ! 0, ''becomes'', e ! 1, ''? ... ''],
                               CHR 0x09 # ''yup!'']) pre), None)
         (run_tests_loop parse rest)"
proof (induction pre)
  case Nil
  show ?case by (cases "run_tests_loop parse rest") (simp add: seq_def)
next
  case (Cons e pre)
  then have "length e = 2" and m: "convert parse (e ! 0) = Inr (e ! 1)" by auto
  then obtain a b where e: "e = [a, b]"
    by (cases e; cases "tl e") auto
  from Cons have IH: "run_tests_loop parse (pre @ rest) =
     seq (concat (map (\<lambda>e. [print_items [e ! 0, ''becomes'', e ! 1, ''? ... ''],
                               CHR 0x09 # ''yup!'']) pre), None)
         (run_tests_loop parse rest)" by simp
  from m e have "convert parse a = Inr b" by simp
  then have "run_tests_loop parse ((e # pre) @ rest) =
      seq (yield (print_items [a, ''becomes'', b, ''? ... '']))
     (seq (yield (CHR 0x09 # ''yup!'')) (run_tests_loop parse (pre @ rest)))"
    using e by simp
  also have "\<dots> = seq (concat (map (\<lambda>e. [print_items [e ! 0, ''becomes'', e ! 1, ''? ... ''],
                               CHR 0x09 # ''yup!'']) (e # pre)), None)
         (run_tests_loop parse rest)"
    unfolding IH using e by (simp add: seq_def yield_def)
  finally show ?case .
qed

lemma TESTS_pairs: "\<forall>e \<in> set (take 10 TESTS). length e = 2"
  by (simp add: TESTS_def)

lemma length_TESTS: "length TESTS = 11"
  by (simp add: TESTS_def)

lemma sample_parse_converts:
  "convert sample_parse ''foo'' = Inr (''(field text '' @ [CHR 0x27] @ ''foo'' @ [CHR 0x27] @ '')'')"
  "convert sample_parse ''foo:bar'' =
     Inr (''(field foo '' @ [CHR 0x27] @ ''bar'' @ [CHR 0x27] @ '')'')"
  "convert sample_parse ([CHR 0x22] @ ''foo bar baz'' @ [CHR 0x22]) =
     Inr (''(and (field text '' @ [CHR 0x27, CHR 0x22] @ ''foo'' @ [CHR 0x27]
          @ '') (field text '' @ [CHR 0x27] @ ''bar'' @ [CHR 0x27]
          @ '') (field text '' @ [CHR 0x27] @ ''baz'' @ [CHR 0x22, CHR 0x27] @ ''))'')"
  by (simp_all add: convert_def sample_parse_def HANDLERS_simps build_field_def
      isinstance_def join_seq join_yield join_attr join_skip lower_names)

lemma TESTS_first_three:
  "take 2 TESTS =
     [[''foo'', ''(field text '' @ [CHR 0x27] @ ''foo'' @ [CHR 0x27] @ '')''],
      [''foo:bar'', ''(field foo '' @ [CHR 0x27] @ ''bar'' @ [CHR 0x27] @ '')'']]"
  "TESTS ! 2 =
     [[CHR 0x22] @ ''foo bar baz'' @ [CHR 0x22],
      ''(field text '' @ [CHR 0x27] @ ''foo bar baz'' @ [CHR 0x27] @ '')'']"
  by (simp_all add: TESTS_def)

text \<open>
  C7. \<^verbatim>\<open>run_tests\<close> on the module's table, when the translation of one of the ten
  entries that are pairs differs from the expected output and the entries before it all
  match: for each entry before it the run prints the input and the expected output on one
  line and then \<^verbatim>\<open>yup!\<close>; for that entry it prints the input and the expected output, then
  the \<^verbatim>\<open>nope\<close> line with the actual output, and raises AssertionError; nothing is printed
  after that.
\<close>

theorem self_test_run:
  assumes "k < 10"
    and "\<forall>e \<in> set (take k TESTS). convert parse (e ! 0) = Inr (e ! 1)"
    and "convert parse (TESTS ! k ! 0) = Inr result"
    and "result \<noteq> TESTS ! k ! 1"
  shows "run_tests parse =
     (concat (map (\<lambda>e. [print_items [e ! 0, ''becomes'', e ! 1, ''? ... ''],
                          CHR 0x09 # ''yup!'']) (take k TESTS))
      @ [print_items [TESTS ! k ! 0, ''becomes'', TESTS ! k ! 1, ''? ... ''],
         print_items [CHR 0x09 # ''nope:'', result]],
      Some AssertionError)"
proof -
  from \<open>k < 10\<close> have split: "TESTS = take k TESTS @ TESTS ! k # drop (Suc k) TESTS"
    by (simp add: id_take_nth_drop length_TESTS)
  from \<open>k < 10\<close> have "set (take k TESTS) \<subseteq> set (take 10 TESTS)"
    by (simp add: set_take_subset_set_take)
  with TESTS_pairs assms(2)
  have pre: "\<forall>e \<in> set (take k TESTS). length e = 2 \<and> convert parse (e ! 0) = Inr (e ! 1)"
    by blast
  from \<open>k < 10\<close> have "take 10 TESTS ! k \<in> set (take 10 TESTS)"
    by (intro nth_mem) (simp add: length_TESTS)
  with \<open>k < 10\<close> TESTS_pairs have "length (TESTS ! k) = 2" by simp
  then obtain a b where e: "TESTS ! k = [a, b]"
    by (cases "TESTS ! k"; cases "tl (TESTS ! k)") auto
  with assms(3,4) have "convert parse a = Inr result" "result \<noteq> b" by simp_all
  then have stop: "run_tests_loop parse (TESTS ! k # drop (Suc k) TESTS) =
      ([print_items [a, ''becomes'', b, ''? ... ''],
        print_items [CHR 0x09 # ''nope:'', result]], Some AssertionError)"
    unfolding e by (simp add: seq_def yield_def raise_def)
  have "run_tests parse = run_tests_loop parse (take k TESTS @ TESTS ! k # drop (Suc k) TESTS)"
    using split by (simp add: run_tests_def)
  also have "\<dots> = seq (concat (map (\<lambda>e. [print_items [e ! 0, ''becomes'', e ! 1, ''? ... ''],
                          CHR 0x09 # ''yup!'']) (take k TESTS)), None)
         (run_tests_loop parse (TESTS ! k # drop (Suc k) TESTS))"
    using pre by (rule run_tests_loop_matching_prefix)
  finally show ?thesis
    unfolding stop using e by (simp add: seq_def)
qed

theorem self_test_run_witness:
  "convert sample_parse ''foo'' =
     Inr (''(field text '' @ [CHR 0x27] @ ''foo'' @ [CHR 0x27] @ '')'') \<and>
   convert sample_parse ''foo:bar'' =
     Inr (''(field foo '' @ [CHR 0x27] @ ''bar'' @ [CHR 0x27] @ '')'') \<and>
   convert sample_parse ([CHR 0x22] @ ''foo bar baz'' @ [CHR 0x22]) =
     Inr (''(and (field text '' @ [CHR 0x27, CHR 0x22] @ ''foo'' @ [CHR 0x27]
          @ '') (field text '' @ [CHR 0x27] @ ''bar'' @ [CHR 0x27]
          @ '') (field text '' @ [CHR 0x27] @ ''baz'' @ [CHR 0x22, CHR 0x27] @ ''))'') \<and>
   run_tests sample_parse =
     ([''foo becomes (field text '' @ [CHR 0x27] @ ''foo'' @ [CHR 0x27] @ '') ? ... '',
       CHR 0x09 # ''yup!'',
       ''foo:bar becomes (field foo '' @ [CHR 0x27] @ ''bar'' @ [CHR 0x27] @ '') ? ... '',
       CHR 0x09 # ''yup!'',
       [CHR 0x22] @ ''foo bar baz'' @ [CHR 0x22] @ '' becomes (field text '' @ [CHR 0x27]
         @ ''foo bar baz'' @ [CHR 0x27] @ '') ? ... '',
       CHR 0x09 # ''nope: (and (field text '' @ [CHR 0x27, CHR 0x22] @ ''foo'' @ [CHR 0x27]
         @ '') (field text '' @ [CHR 0x27] @ ''bar'' @ [CHR 0x27]
         @ '') (field text '' @ [CHR 0x27] @ ''baz'' @ [CHR 0x22, CHR 0x27] @ ''))''],
      Some AssertionError)"
  using self_test_run [of 2 sample_parse
     "''(and (field text '' @ [CHR 0x27, CHR 0x22] @ ''foo'' @ [CHR 0x27]
          @ '') (field text '' @ [CHR 0x27] @ ''bar'' @ [CHR 0x27]
          @ '') (field text '' @ [CHR 0x27] @ ''baz'' @ [CHR 0x22, CHR 0x27] @ ''))''"]
  by (simp add: sample_parse_converts [simplified] TESTS_first_three [simplified] isspace_def)

lemma walk_clause_frame:
  "(\<forall>c \<in> classes_of q. H c = H' c) \<Longrightarrow> walk_clause H q = walk_clause H' q"
  "(\<forall>c \<in> classes_of q. H c = H' c) \<Longrightarrow> build_grouper H q = build_grouper H' q"
  "(\<forall>c \<in> classes_of q. H c = H' c) \<Longrightarrow> build_compound H q = build_compound H' q"
  "(\<forall>v \<in> set qs. \<forall>c \<in> classes_of v. H c = H' c) \<Longrightarrow> walk_children H qs = walk_children H' qs"
proof (induction H q and H q and H q and H qs
    rule: walk_clause_build_grouper_build_compound_walk_children.induct)
  case (1 H c f t w i cs)
  then show ?case
    by (auto split: option.splits handler_fn.splits)
next
  case (2 H c f t w i cs)
  then show ?case by auto
next
  case (3 H c f t w i cs)
  then show ?case by (auto split: list.splits)
next
  case (4 H)
  then show ?case by simp
next
  case (5 H child_clause rest)
  then show ?case by auto
qed




end
